theory Spec2Isabelle
  imports Complex_Main
begin

section \<open>Values\<close>

text \<open>
  A Python float is modelled by its value: a finite double is the rational number it
  denotes, and the three special values are kept apart because the comparisons and
  the means of \<^verbatim>\<open>Weather_fetch.py\<close> treat them differently. Arithmetic on finite
  values is exact here: the rounding of binary floating point, overflow to infinity
  and the sign of zero are not part of the model. JSON integers and JSON reals are
  both \<open>Fin\<close>.
\<close>

datatype pyfloat = Fin rat | PosInf | NegInf | NaN

text \<open>The decoded JSON values that \<^verbatim>\<open>response.json()\<close> can return. A \<open>PDict\<close> lists
  the items of the dictionary (its keys are distinct).\<close>

datatype pyval =
    PNone
  | PBool bool
  | PNum pyfloat
  | PStr string
  | PList "pyval list"
  | PDict "(string \<times> pyval) list"

datatype py_error =
    TypeError
  | KeyError
  | IndexError
  | JSONDecodeError
  | FileNotFoundError
  | EmptyDataError
  | UnsupportedTable

text \<open>\<^verbatim>\<open>a <= b\<close> on floats: every comparison with NaN is false.\<close>

fun fle :: "pyfloat \<Rightarrow> pyfloat \<Rightarrow> bool" where
  "fle NaN _ = False"
| "fle _ NaN = False"
| "fle NegInf _ = True"
| "fle _ PosInf = True"
| "fle (Fin a) (Fin b) = (a \<le> b)"
| "fle PosInf _ = False"
| "fle _ NegInf = False"

text \<open>\<^verbatim>\<open>a + b\<close> on floats, and the division of a sum by a positive count.\<close>

fun fadd :: "pyfloat \<Rightarrow> pyfloat \<Rightarrow> pyfloat" where
  "fadd NaN _ = NaN"
| "fadd _ NaN = NaN"
| "fadd PosInf NegInf = NaN"
| "fadd NegInf PosInf = NaN"
| "fadd PosInf _ = PosInf"
| "fadd _ PosInf = PosInf"
| "fadd NegInf _ = NegInf"
| "fadd _ NegInf = NegInf"
| "fadd (Fin a) (Fin b) = Fin (a + b)"

fun fdiv_count :: "pyfloat \<Rightarrow> nat \<Rightarrow> pyfloat" where
  "fdiv_count (Fin a) n = Fin (a / of_nat n)"
| "fdiv_count x n = x"

section \<open>The table of weather records\<close>

text \<open>
  The frame that \<^verbatim>\<open>pd.read_csv\<close> returns for a file of the pipeline's format: one
  record per data row, the three measured columns of dtype float64 (an empty field is
  NaN), the Time column carried as the value it holds.
\<close>

record row =
  Time :: pyval
  Temperature :: pyfloat
  Humidity :: pyfloat
  Wind_Speed :: pyfloat

type_synonym dataframe = "row list"

text \<open>\<^verbatim>\<open>Series.mean()\<close>: NaN entries are skipped; the mean of no entries is NaN, and
  no exception is raised.\<close>

definition fsum :: "pyfloat list \<Rightarrow> pyfloat" where
  "fsum xs = foldl fadd (Fin 0) xs"

definition mean :: "pyfloat list \<Rightarrow> pyfloat" where
  "mean xs =
     (let ys = filter (\<lambda>x. x \<noteq> NaN) xs
      in if ys = [] then NaN else fdiv_count (fsum ys) (length ys))"

text \<open>\<^verbatim>\<open>fillna(m)\<close> on one entry: a NaN entry takes the column's value \<open>m\<close>.\<close>

definition fillna :: "pyfloat \<Rightarrow> pyfloat \<Rightarrow> pyfloat" where
  "fillna m x = (if x = NaN then m else x)"

text \<open>The three boolean masks of lines 61 to 63.\<close>

definition temperature_ok :: "row \<Rightarrow> bool" where
  "temperature_ok r = (fle (Fin 0) (Temperature r) \<and> fle (Temperature r) (Fin 60))"

definition humidity_ok :: "row \<Rightarrow> bool" where
  "humidity_ok r = (fle (Fin 0) (Humidity r) \<and> fle (Humidity r) (Fin 80))"

definition wind_speed_ok :: "row \<Rightarrow> bool" where
  "wind_speed_ok r = (fle (Fin 3) (Wind_Speed r) \<and> fle (Wind_Speed r) (Fin 150))"

text \<open>Lines 61 to 67 of \<^verbatim>\<open>clean_data\<close>: three successive row selections, then the
  column means of what is left, then \<^verbatim>\<open>fillna\<close> with those means on the three
  numeric columns.\<close>

definition clean_frame :: "dataframe \<Rightarrow> dataframe" where
  "clean_frame df =
     (let df1 = filter temperature_ok df;
          df2 = filter humidity_ok df1;
          df3 = filter wind_speed_ok df2;
          mt = mean (map Temperature df3);
          mh = mean (map Humidity df3);
          mw = mean (map Wind_Speed df3)
      in map (\<lambda>r. r\<lparr>Temperature := fillna mt (Temperature r),
                     Humidity := fillna mh (Humidity r),
                     Wind_Speed := fillna mw (Wind_Speed r)\<rparr>) df3)"

text \<open>The ValidationRule of the specification, as one predicate on a row, and the rows
  that miss a numeric value.\<close>

definition in_range :: "row \<Rightarrow> bool" where
  "in_range r = (temperature_ok r \<and> humidity_ok r \<and> wind_speed_ok r)"

definition has_missing :: "row \<Rightarrow> bool" where
  "has_missing r = (Temperature r = NaN \<or> Humidity r = NaN \<or> Wind_Speed r = NaN)"

section \<open>Python operations on decoded JSON\<close>

text \<open>The truth value of \<^verbatim>\<open>if data:\<close> and \<^verbatim>\<open>if not data:\<close>.\<close>

fun truthy :: "pyval \<Rightarrow> bool" where
  "truthy PNone = False"
| "truthy (PBool b) = b"
| "truthy (PNum x) = (x \<noteq> Fin 0)"
| "truthy (PStr s) = (s \<noteq> [])"
| "truthy (PList xs) = (xs \<noteq> [])"
| "truthy (PDict kvs) = (kvs \<noteq> [])"

fun is_substring :: "string \<Rightarrow> string \<Rightarrow> bool" where
  "is_substring k [] = (k = [])"
| "is_substring k (c # cs) = (take (length k) (c # cs) = k \<or> is_substring k cs)"

text \<open>\<^verbatim>\<open>k in v\<close> for a string \<open>k\<close>: a key test on a dict, an element test on a list,
  a substring test on a string, and a TypeError on None, a boolean or a number.\<close>

fun py_in :: "string \<Rightarrow> pyval \<Rightarrow> py_error + bool" where
  "py_in k (PDict kvs) = Inr (k \<in> set (map fst kvs))"
| "py_in k (PList xs) = Inr (PStr k \<in> set xs)"
| "py_in k (PStr s) = Inr (is_substring k s)"
| "py_in k _ = Inl TypeError"

text \<open>\<^verbatim>\<open>v[k]\<close> for a string \<open>k\<close>, \<^verbatim>\<open>v[i]\<close> for an index \<open>i\<close> of a \<^verbatim>\<open>range\<close>, and
  \<^verbatim>\<open>len(v)\<close>.\<close>

fun getitem_str :: "pyval \<Rightarrow> string \<Rightarrow> py_error + pyval" where
  "getitem_str (PDict kvs) k = (case map_of kvs k of None \<Rightarrow> Inl KeyError | Some v \<Rightarrow> Inr v)"
| "getitem_str _ k = Inl TypeError"

fun getitem_int :: "pyval \<Rightarrow> nat \<Rightarrow> py_error + pyval" where
  "getitem_int (PList xs) i = (if i < length xs then Inr (xs ! i) else Inl IndexError)"
| "getitem_int (PStr s) i = (if i < length s then Inr (PStr [s ! i]) else Inl IndexError)"
| "getitem_int (PDict kvs) i = Inl KeyError"
| "getitem_int _ i = Inl TypeError"

fun py_len :: "pyval \<Rightarrow> py_error + nat" where
  "py_len (PList xs) = Inr (length xs)"
| "py_len (PStr s) = Inr (length s)"
| "py_len (PDict kvs) = Inr (length kvs)"
| "py_len _ = Inl TypeError"

section \<open>The world: files and console\<close>

text \<open>
  A CSV file is the list of its rows, the header row first, each row the list of the
  values handed to the writer; the rendering of a value as text and the quoting are
  below the model. The lines printed with an emoji are constructors of \<open>message\<close>; the
  summary lines are plain text.
\<close>

type_synonym csv = "pyval list list"

datatype message =
    Warn_hourly_missing
  | Error_status int
  | No_data_to_save
  | Saved string
  | Cleaned string
  | No_data_to_summarize
  | Summary_banner
  | Line string

record world =
  files :: "string \<rightharpoonup> csv"
  console :: "message list"

definition py_print :: "message \<Rightarrow> world \<Rightarrow> world" where
  "py_print m w = w\<lparr>console := console w @ [m]\<rparr>"

definition write_file :: "string \<Rightarrow> csv \<Rightarrow> world \<Rightarrow> world" where
  "write_file filename rows w = w\<lparr>files := (files w)(filename \<mapsto> rows)\<rparr>"

definition header_row :: "pyval list" where
  "header_row = [PStr ''Time'', PStr ''Temperature'', PStr ''Humidity'', PStr ''Wind Speed'']"

section \<open>Part 1: fetch_weather_data\<close>

text \<open>The response of \<^verbatim>\<open>requests.get(URL)\<close> is the input: its status code and its body
  as \<^verbatim>\<open>response.json()\<close> decodes it (\<open>None\<close> when the body is not JSON). A transport
  failure of the request itself is outside the model. Python's \<^verbatim>\<open>None\<close> is \<open>PNone\<close>.\<close>

record response =
  status_code :: int
  body :: "pyval option"

definition fetch_weather_data :: "response \<Rightarrow> world \<Rightarrow> (py_error + pyval) \<times> world" where
  "fetch_weather_data resp w =
     (if status_code resp = 200 then
        (case body resp of
           None \<Rightarrow> (Inl JSONDecodeError, w)
         | Some data \<Rightarrow>
             (case py_in ''hourly'' data of
                Inl e \<Rightarrow> (Inl e, w)
              | Inr has_hourly \<Rightarrow>
                  if has_hourly then
                    (case getitem_str data ''hourly'' of
                       Inl e \<Rightarrow> (Inl e, w)
                     | Inr hourly \<Rightarrow>
                         (case py_in ''temperature_2m'' hourly of
                            Inl e \<Rightarrow> (Inl e, w)
                          | Inr has_temp \<Rightarrow>
                              if has_temp then (Inr hourly, w)
                              else (Inr PNone, py_print Warn_hourly_missing w)))
                  else (Inr PNone, py_print Warn_hourly_missing w)))
      else (Inr PNone, py_print (Error_status (status_code resp)) w))"

section \<open>Part 2: save_to_csv\<close>

text \<open>\<^verbatim>\<open>data[key][i]\<close>, and the list built for one \<^verbatim>\<open>writer.writerow\<close> call: the four
  lookups run left to right and the first exception wins.\<close>

definition cell_at :: "pyval \<Rightarrow> string \<Rightarrow> nat \<Rightarrow> py_error + pyval" where
  "cell_at data key i =
     (case getitem_str data key of Inl e \<Rightarrow> Inl e | Inr col \<Rightarrow> getitem_int col i)"

definition data_row :: "pyval \<Rightarrow> nat \<Rightarrow> py_error + pyval list" where
  "data_row data i =
     (case cell_at data ''time'' i of Inl e \<Rightarrow> Inl e | Inr t \<Rightarrow>
     (case cell_at data ''temperature_2m'' i of Inl e \<Rightarrow> Inl e | Inr a \<Rightarrow>
     (case cell_at data ''relative_humidity_2m'' i of Inl e \<Rightarrow> Inl e | Inr b \<Rightarrow>
     (case cell_at data ''wind_speed_10m'' i of Inl e \<Rightarrow> Inl e | Inr c \<Rightarrow>
      Inr [t, a, b, c]))))"

text \<open>The \<^verbatim>\<open>for i in range(...)\<close> loop over the rows written so far; an exception
  leaves them in the file.\<close>

fun write_rows :: "pyval \<Rightarrow> nat list \<Rightarrow> csv \<Rightarrow> (py_error + unit) \<times> csv" where
  "write_rows data [] written = (Inr (), written)"
| "write_rows data (i # rest) written =
     (case data_row data i of
        Inl e \<Rightarrow> (Inl e, written)
      | Inr r \<Rightarrow> write_rows data rest (written @ [r]))"

definition save_to_csv :: "pyval \<Rightarrow> string \<Rightarrow> world \<Rightarrow> (py_error + unit) \<times> world" where
  "save_to_csv data filename w =
     (if \<not> truthy data then (Inr (), py_print No_data_to_save w)
      else
        (case (case getitem_str data ''time'' of Inl e \<Rightarrow> Inl e | Inr col \<Rightarrow> py_len col) of
           Inl e \<Rightarrow> (Inl e, write_file filename [header_row] w)
         | Inr n \<Rightarrow>
             (case write_rows data [0..<n] [header_row] of
                (Inl e, written) \<Rightarrow> (Inl e, write_file filename written w)
              | (Inr u, written) \<Rightarrow>
                  (Inr (), py_print (Saved filename) (write_file filename written w)))))"

section \<open>Reading and writing a frame\<close>

text \<open>
  \<^verbatim>\<open>pd.read_csv\<close> on the files of this pipeline: a missing file raises, a file with no
  header line raises, and a file with the header of \<open>header_row\<close> whose numeric fields
  are numbers or empty gives the frame of its rows. For any other file (another
  header, a row of another width, text in a numeric column) the model answers
  \<open>UnsupportedTable\<close>: what pandas does there is not modelled.
\<close>

fun parse_num :: "pyval \<Rightarrow> pyfloat option" where
  "parse_num (PNum x) = Some x"
| "parse_num PNone = Some NaN"
| "parse_num _ = None"

fun parse_row :: "pyval list \<Rightarrow> row option" where
  "parse_row [t, a, b, c] =
     (case parse_num a of None \<Rightarrow> None | Some x \<Rightarrow>
     (case parse_num b of None \<Rightarrow> None | Some y \<Rightarrow>
     (case parse_num c of None \<Rightarrow> None | Some z \<Rightarrow>
      Some \<lparr>Time = t, Temperature = x, Humidity = y, Wind_Speed = z\<rparr>)))"
| "parse_row _ = None"

fun parse_rows :: "csv \<Rightarrow> dataframe option" where
  "parse_rows [] = Some []"
| "parse_rows (r # rs) =
     (case parse_row r of None \<Rightarrow> None | Some x \<Rightarrow>
     (case parse_rows rs of None \<Rightarrow> None | Some xs \<Rightarrow> Some (x # xs)))"

definition read_csv :: "string \<Rightarrow> world \<Rightarrow> py_error + dataframe" where
  "read_csv filename w =
     (case files w filename of
        None \<Rightarrow> Inl FileNotFoundError
      | Some [] \<Rightarrow> Inl EmptyDataError
      | Some (h # rs) \<Rightarrow>
          if h = header_row then
            (case parse_rows rs of None \<Rightarrow> Inl UnsupportedTable | Some df \<Rightarrow> Inr df)
          else Inl UnsupportedTable)"

text \<open>\<^verbatim>\<open>df.to_csv(output_file, index=False)\<close>: the header, then one row per record; a
  NaN is written as an empty field.\<close>

definition cell_of_float :: "pyfloat \<Rightarrow> pyval" where
  "cell_of_float x = (if x = NaN then PNone else PNum x)"

definition row_fields :: "row \<Rightarrow> pyval list" where
  "row_fields r = [Time r, cell_of_float (Temperature r), cell_of_float (Humidity r),
               cell_of_float (Wind_Speed r)]"

definition to_csv :: "dataframe \<Rightarrow> string \<Rightarrow> world \<Rightarrow> world" where
  "to_csv df filename w = write_file filename (header_row # map row_fields df) w"

section \<open>Part 3: clean_data\<close>

definition clean_data :: "string \<Rightarrow> string \<Rightarrow> world \<Rightarrow> (py_error + unit) \<times> world" where
  "clean_data input_file output_file w =
     (case read_csv input_file w of
        Inl e \<Rightarrow> (Inl e, w)
      | Inr df \<Rightarrow>
          (Inr (), py_print (Cleaned output_file) (to_csv (clean_frame df) output_file w)))"

section \<open>Part 4: summarize_data\<close>

text \<open>\<^verbatim>\<open>Series.max()\<close> and \<^verbatim>\<open>Series.min()\<close>: NaN entries are skipped, and the result
  for no entries is NaN.\<close>

definition fmax2 :: "pyfloat \<Rightarrow> pyfloat \<Rightarrow> pyfloat" where
  "fmax2 a b = (if fle a b then b else a)"

definition fmin2 :: "pyfloat \<Rightarrow> pyfloat \<Rightarrow> pyfloat" where
  "fmin2 a b = (if fle a b then a else b)"

definition col_max :: "pyfloat list \<Rightarrow> pyfloat" where
  "col_max xs = (case filter (\<lambda>x. x \<noteq> NaN) xs of [] \<Rightarrow> NaN | y # ys \<Rightarrow> foldl fmax2 y ys)"

definition col_min :: "pyfloat list \<Rightarrow> pyfloat" where
  "col_min xs = (case filter (\<lambda>x. x \<noteq> NaN) xs of [] \<Rightarrow> NaN | y # ys \<Rightarrow> foldl fmin2 y ys)"

text \<open>The format \<^verbatim>\<open>{value:.2f}\<close>: the value rounded to hundredths, ties to the even
  hundredth, printed with its sign, its integer digits, a point and two digits; the
  special values print as words.\<close>

definition digit :: "nat \<Rightarrow> char" where
  "digit d = ''0123456789'' ! d"

fun show_nat :: "nat \<Rightarrow> string" where
  "show_nat n = (if n < 10 then [digit n] else show_nat (n div 10) @ [digit (n mod 10)])"

declare show_nat.simps [simp del]

definition round_half_even :: "rat \<Rightarrow> nat" where
  "round_half_even q =
     (let f = \<lfloor>q\<rfloor>; d = q - of_int f
      in nat (if d < 1 / 2 then f else if 1 / 2 < d then f + 1
              else if even f then f else f + 1))"

fun format_2f :: "pyfloat \<Rightarrow> string" where
  "format_2f (Fin r) =
     (let n = round_half_even (\<bar>r\<bar> * 100)
      in (if r < 0 then ''-'' else []) @ show_nat (n div 100) @ ''.'' @
         [digit (n mod 100 div 10), digit (n mod 10)])"
| "format_2f PosInf = ''inf''"
| "format_2f NegInf = ''-inf''"
| "format_2f NaN = ''nan''"

text \<open>The \<^verbatim>\<open>summary\<close> dictionary, in insertion order, and one printed line of it.\<close>

definition summary :: "dataframe \<Rightarrow> (string \<times> pyfloat) list" where
  "summary df =
     [(''Total Records'', Fin (of_nat (length df))),
      (''Avg Temperature'', mean (map Temperature df)),
      (''Max Temperature'', col_max (map Temperature df)),
      (''Min Temperature'', col_min (map Temperature df)),
      (''Avg Humidity'', mean (map Humidity df)),
      (''Avg Wind Speed'', mean (map Wind_Speed df))]"

definition metric_line :: "string \<times> pyfloat \<Rightarrow> message" where
  "metric_line kv = Line (fst kv @ '': '' @ format_2f (snd kv))"

definition summarize_data :: "string \<Rightarrow> world \<Rightarrow> (py_error + unit) \<times> world" where
  "summarize_data filename w =
     (case read_csv filename w of
        Inl e \<Rightarrow> (Inl e, w)
      | Inr df \<Rightarrow>
          if df = [] then (Inr (), py_print No_data_to_summarize w)
          else (Inr (), foldl (\<lambda>w' kv. py_print (metric_line kv) w')
                          (py_print Summary_banner w) (summary df)))"

section \<open>The pipeline\<close>

definition main :: "response \<Rightarrow> world \<Rightarrow> (py_error + unit) \<times> world" where
  "main resp w =
     (case fetch_weather_data resp w of
        (Inl e, w1) \<Rightarrow> (Inl e, w1)
      | (Inr weather_data, w1) \<Rightarrow>
          if truthy weather_data then
            (case save_to_csv weather_data ''weather_data.csv'' w1 of
               (Inl e, w2) \<Rightarrow> (Inl e, w2)
             | (Inr u, w2) \<Rightarrow>
                 (case clean_data ''weather_data.csv'' ''cleaned_data.csv'' w2 of
                    (Inl e, w3) \<Rightarrow> (Inl e, w3)
                  | (Inr u', w3) \<Rightarrow> summarize_data ''cleaned_data.csv'' w3))
          else (Inr (), w1))"

section \<open>Predicates used by the statements\<close>



text \<open>A column holds at least one present value and no infinite one.\<close>

definition present_finite :: "pyfloat list \<Rightarrow> bool" where
  "present_finite xs =
     (list_ex (\<lambda>x. x \<noteq> NaN) xs \<and> list_all (\<lambda>x. x \<noteq> PosInf \<and> x \<noteq> NegInf) xs)"


section \<open>Example inputs\<close>

text \<open>Rows and files on which the statements below are evaluated.\<close>

definition row_valid :: row where
  "row_valid = \<lparr>Time = PStr ''t1'', Temperature = Fin 20, Humidity = Fin 50,
                 Wind_Speed = Fin 10\<rparr>"

definition row_missing :: row where
  "row_missing = \<lparr>Time = PStr ''t0'', Temperature = NaN, Humidity = Fin 50,
                   Wind_Speed = Fin 10\<rparr>"

definition row_hot :: row where
  "row_hot = \<lparr>Time = PStr ''t2'', Temperature = Fin 999, Humidity = Fin 40,
               Wind_Speed = Fin 20\<rparr>"

definition world0 :: world where
  "world0 = \<lparr>files = Map.empty, console = []\<rparr>"



definition file_missing :: csv where
  "file_missing =
     [header_row,
      [PStr ''t0'', PNone, PNum (Fin 50), PNum (Fin 10)],
      [PStr ''t1'', PNum (Fin 20), PNum (Fin 50), PNum (Fin 10)]]"


definition rows_mixed :: csv where
  "rows_mixed =
     [[PStr ''t0'', PNone, PNum (Fin 50), PNum (Fin 10)],
      [PStr ''t1'', PNum (Fin 20), PNum (Fin 50), PNum (Fin 10)],
      [PStr ''t2'', PNum (Fin 999), PNum (Fin 40), PNum (Fin 20)]]"

definition world_mixed :: world where
  "world_mixed = write_file ''weather_data.csv'' (header_row # rows_mixed) world0"

definition file_three :: csv where
  "file_three =
     [header_row,
      [PStr ''t0'', PNum (Fin 10), PNum (Fin 50), PNum (Fin 10)],
      [PStr ''t1'', PNum (Fin 20), PNum (Fin 60), PNum (Fin 20)],
      [PStr ''t2'', PNum (Fin 30), PNum (Fin 70), PNum (Fin 30)]]"

definition frame_three :: dataframe where
  "frame_three =
     [\<lparr>Time = PStr ''t0'', Temperature = Fin 10, Humidity = Fin 50, Wind_Speed = Fin 10\<rparr>,
      \<lparr>Time = PStr ''t1'', Temperature = Fin 20, Humidity = Fin 60, Wind_Speed = Fin 20\<rparr>,
      \<lparr>Time = PStr ''t2'', Temperature = Fin 30, Humidity = Fin 70, Wind_Speed = Fin 30\<rparr>]"


definition batch_two :: "(string \<times> pyval) list" where
  "batch_two =
     [(''time'', PList [PStr ''t0'', PStr ''t1'']),
      (''temperature_2m'', PList [PNum (Fin 20), PNum (Fin 999)]),
      (''relative_humidity_2m'', PList [PNum (Fin 50), PNum (Fin 40)]),
      (''wind_speed_10m'', PList [PNum (Fin 10), PNum (Fin 20)])]"

definition response_ok :: response where
  "response_ok = \<lparr>status_code = 200, body = Some (PDict [(''hourly'', PDict batch_two)])\<rparr>"



definition response_500 :: response where
  "response_500 = \<lparr>status_code = 500, body = None\<rparr>"

section \<open>Properties of the Cleaner's row selection\<close>

lemma fle_lower_not_NaN: "fle (Fin a) x \<Longrightarrow> x \<noteq> NaN"
  by (cases x) auto

lemma in_range_no_missing: "in_range r \<Longrightarrow> \<not> has_missing r"
  by (auto simp: in_range_def has_missing_def temperature_ok_def humidity_ok_def
      wind_speed_ok_def)

lemma filter_three: "filter wind_speed_ok (filter humidity_ok (filter temperature_ok df)) =
    filter in_range df"
  by (induction df) (auto simp: in_range_def)

lemma fill_present:
  "\<not> has_missing r \<Longrightarrow>
   r\<lparr>Temperature := fillna mt (Temperature r), Humidity := fillna mh (Humidity r),
     Wind_Speed := fillna mw (Wind_Speed r)\<rparr> = r"
  by (simp add: has_missing_def fillna_def)

lemma clean_frame_filter: "clean_frame df = filter in_range df"
proof -
  have "map (\<lambda>r. r\<lparr>Temperature := fillna mt (Temperature r),
        Humidity := fillna mh (Humidity r),
        Wind_Speed := fillna mw (Wind_Speed r)\<rparr>) (filter in_range df) = filter in_range df"
    for mt mh mw
    by (rule map_idI) (simp add: fill_present in_range_no_missing)
  then show ?thesis
    unfolding clean_frame_def Let_def filter_three .
qed


lemma in_range_bounds:
  "in_range r \<Longrightarrow>
   \<exists>t h s. Temperature r = Fin t \<and> 0 \<le> t \<and> t \<le> 60 \<and>
           Humidity r = Fin h \<and> 0 \<le> h \<and> h \<le> 80 \<and>
           Wind_Speed r = Fin s \<and> 3 \<le> s \<and> s \<le> 150"
  unfolding in_range_def temperature_ok_def humidity_ok_def wind_speed_ok_def
  by (cases "Temperature r"; cases "Humidity r"; cases "Wind_Speed r") simp_all

lemma in_range_examples:
  "in_range row_valid" "\<not> in_range row_missing" "\<not> in_range row_hot"
  by (simp_all add: in_range_def temperature_ok_def humidity_ok_def wind_speed_ok_def
      row_valid_def row_missing_def row_hot_def)

section \<open>The Cleaner on files\<close>








lemma parse_num_cell: "parse_num (cell_of_float x) = Some x"
  by (simp add: cell_of_float_def)

lemma parse_row_fields_back: "parse_row (row_fields x) = Some x"
  by (simp add: row_fields_def parse_num_cell)

lemma parse_rows_fields_back: "parse_rows (map row_fields xs) = Some xs"
  by (induction xs) (simp_all add: parse_row_fields_back)

lemma read_csv_to_csv: "read_csv filename (py_print m (to_csv xs filename w)) = Inr xs"
  by (simp add: read_csv_def py_print_def to_csv_def write_file_def parse_rows_fields_back)

lemma clean_data_writes:
  "read_csv input_file w = Inr df \<Longrightarrow>
   clean_data input_file output_file w =
     (Inr (), py_print (Cleaned output_file) (to_csv (clean_frame df) output_file w))"
  by (simp add: clean_data_def)


lemma read_mixed:
  "files world_mixed ''weather_data.csv'' = Some (header_row # rows_mixed)"
  "parse_rows rows_mixed = Some [row_missing, row_valid, row_hot]"
  "read_csv ''weather_data.csv'' world_mixed = Inr [row_missing, row_valid, row_hot]"
  by (simp_all add: world_mixed_def read_csv_def write_file_def world0_def rows_mixed_def
      row_missing_def row_valid_def row_hot_def)

lemma clean_mixed: "clean_frame [row_missing, row_valid, row_hot] = [row_valid]"
  by (simp add: clean_frame_filter in_range_examples)




text \<open>
  C2. Every row of the Cleaner's output, read back from the file it wrote, has a
  Temperature in [0,60], a Humidity in [0,80] and a Wind Speed in [3,150]; each of
  the three is a present, finite value.
\<close>

theorem clean_data_rows_in_range:
  assumes "read_csv input_file w = Inr df"
  shows "read_csv output_file (snd (clean_data input_file output_file w)) =
           Inr (clean_frame df) \<and>
         (\<forall>r \<in> set (clean_frame df).
            \<exists>t h s. Temperature r = Fin t \<and> 0 \<le> t \<and> t \<le> 60 \<and>
                    Humidity r = Fin h \<and> 0 \<le> h \<and> h \<le> 80 \<and>
                    Wind_Speed r = Fin s \<and> 3 \<le> s \<and> s \<le> 150)"
proof
  show "read_csv output_file (snd (clean_data input_file output_file w)) = Inr (clean_frame df)"
    by (simp add: clean_data_writes [OF assms] read_csv_to_csv)
  show "\<forall>r \<in> set (clean_frame df).
      \<exists>t h s. Temperature r = Fin t \<and> 0 \<le> t \<and> t \<le> 60 \<and>
              Humidity r = Fin h \<and> 0 \<le> h \<and> h \<le> 80 \<and>
              Wind_Speed r = Fin s \<and> 3 \<le> s \<and> s \<le> 150"
  proof
    fix r assume "r \<in> set (clean_frame df)"
    then have "in_range r" by (simp add: clean_frame_filter)
    then show "\<exists>t h s. Temperature r = Fin t \<and> 0 \<le> t \<and> t \<le> 60 \<and>
              Humidity r = Fin h \<and> 0 \<le> h \<and> h \<le> 80 \<and>
              Wind_Speed r = Fin s \<and> 3 \<le> s \<and> s \<le> 150"
      by (rule in_range_bounds)
  qed
qed

theorem clean_data_rows_in_range_witness:
  "read_csv ''weather_data.csv'' world_mixed = Inr [row_missing, row_valid, row_hot] \<and>
   read_csv ''cleaned_data.csv''
     (snd (clean_data ''weather_data.csv'' ''cleaned_data.csv'' world_mixed)) =
     Inr [row_valid] \<and>
   (\<exists>t h s. Temperature row_valid = Fin t \<and> 0 \<le> t \<and> t \<le> 60 \<and>
           Humidity row_valid = Fin h \<and> 0 \<le> h \<and> h \<le> 80 \<and>
           Wind_Speed row_valid = Fin s \<and> 3 \<le> s \<and> s \<le> 150)"
  using read_mixed(3)
    clean_data_rows_in_range [OF read_mixed(3), of "''cleaned_data.csv''"]
  by (simp add: clean_mixed)






text \<open>
  C1. The claim asks that a row with a missing value be kept and the value imputed.
  On the file \<open>file_missing\<close>, whose first row has no Temperature and is otherwise in
  range, the code writes the second row only: the comparison of line 61 is false on
  NaN, so the row is gone before the \<^verbatim>\<open>fillna\<close> of line 67 runs.
\<close>

theorem clean_data_drops_missing_row:
  "clean_data ''weather_data.csv'' ''cleaned_data.csv''
       (write_file ''weather_data.csv'' file_missing world0) =
     (Inr (), py_print (Cleaned ''cleaned_data.csv'')
        (write_file ''cleaned_data.csv''
           [header_row, [PStr ''t1'', PNum (Fin 20), PNum (Fin 50), PNum (Fin 10)]]
           (write_file ''weather_data.csv'' file_missing world0)))"
proof -
  have r: "read_csv ''weather_data.csv'' (write_file ''weather_data.csv'' file_missing world0) =
      Inr [row_missing, row_valid]"
    by (simp add: read_csv_def write_file_def world0_def file_missing_def row_missing_def
        row_valid_def)
  have c: "clean_frame [row_missing, row_valid] = [row_valid]"
    by (simp add: clean_frame_filter in_range_examples)
  have m: "row_fields row_valid =
      [PStr ''t1'', PNum (Fin 20), PNum (Fin 50), PNum (Fin 10)]"
    by (simp add: row_fields_def row_valid_def cell_of_float_def)
  show ?thesis
    by (simp add: clean_data_def r c to_csv_def m)
qed


section \<open>The Writer\<close>






section \<open>The Fetcher and the pipeline\<close>

text \<open>
  C6, as stated, fails: after a response with status 500 the pipeline prints the
  Fetcher's error line and nothing else. The guard \<^verbatim>\<open>if weather_data:\<close> of line 104
  skips the Writer, so its "no data" line is never printed.
\<close>

theorem pipeline_500_writer_silent:
  "console (snd (main response_500 world0)) = [Error_status 500] \<and>
   No_data_to_save \<notin> set (console (snd (main response_500 world0)))"
  by (simp add: main_def fetch_weather_data_def response_500_def py_print_def world0_def)

text \<open>
  C6, amended. For a response whose status is not 200 the Fetcher reports the status
  code and returns None; the pipeline then stops without calling the Writer, the
  Cleaner or the Summarizer, so nothing more is printed and no file is touched. The
  Writer itself, when it is called with None, reports "no data to save" and leaves
  the files as they are.
\<close>

theorem non_200_skips_pipeline:
  "status_code resp \<noteq> 200 \<Longrightarrow>
   fetch_weather_data resp w = (Inr PNone, py_print (Error_status (status_code resp)) w) \<and>
   main resp w = (Inr (), py_print (Error_status (status_code resp)) w) \<and>
   files (snd (main resp w)) = files w \<and>
   save_to_csv PNone filename w' = (Inr (), py_print No_data_to_save w') \<and>
   files (snd (save_to_csv PNone filename w')) = files w'"
  by (simp add: main_def fetch_weather_data_def save_to_csv_def py_print_def)

theorem non_200_skips_pipeline_witness:
  "status_code response_500 \<noteq> 200 \<and>
   fetch_weather_data response_500 world0 = (Inr PNone, py_print (Error_status 500) world0) \<and>
   main response_500 world0 = (Inr (), py_print (Error_status 500) world0) \<and>
   files (snd (main response_500 world0)) = files world0 \<and>
   save_to_csv PNone ''weather_data.csv'' world0 = (Inr (), py_print No_data_to_save world0)"
proof -
  have s: "status_code response_500 \<noteq> 200" by (simp add: response_500_def)
  from s non_200_skips_pipeline [OF s, of world0 "''weather_data.csv''" world0]
  show ?thesis by (simp add: response_500_def py_print_def)
qed







section \<open>The Summarizer\<close>






lemma round_half_even_nat: "round_half_even (of_nat m) = m"
  by (simp add: round_half_even_def)

lemma format_2f_of_nat: "format_2f (Fin (of_nat n)) = show_nat n @ ''.00''"
proof -
  have "\<bar>of_nat n :: rat\<bar> * 100 = of_nat (n * 100)" by simp
  then have "round_half_even (\<bar>of_nat n\<bar> * 100) = n * 100"
    by (simp only: round_half_even_nat)
  then show ?thesis by (simp add: Let_def digit_def)
qed









lemma summarize_console:
  "read_csv filename w = Inr df \<Longrightarrow> df \<noteq> [] \<Longrightarrow>
   summarize_data filename w =
     (Inr (), w\<lparr>console := console w @
        [Summary_banner,
         Line (''Total Records: '' @ show_nat (length df) @ ''.00''),
         Line (''Avg Temperature: '' @ format_2f (mean (map Temperature df))),
         Line (''Max Temperature: '' @ format_2f (col_max (map Temperature df))),
         Line (''Min Temperature: '' @ format_2f (col_min (map Temperature df))),
         Line (''Avg Humidity: '' @ format_2f (mean (map Humidity df))),
         Line (''Avg Wind Speed: '' @ format_2f (mean (map Wind_Speed df)))]\<rparr>)"
  by (simp add: summarize_data_def summary_def metric_line_def py_print_def format_2f_of_nat
      del: format_2f.simps)

lemma read_file_three:
  "read_csv ''cleaned_data.csv'' (write_file ''cleaned_data.csv'' file_three world0) =
     Inr frame_three"
  by (simp add: read_csv_def write_file_def world0_def file_three_def frame_three_def)

lemma format_examples:
  "format_2f (Fin 10) = ''10.00''" "format_2f (Fin 20) = ''20.00''"
  "format_2f (Fin 30) = ''30.00''" "format_2f (Fin 60) = ''60.00''"
  "format_2f (Fin 50) = ''50.00''" "format_2f (Fin 21) = ''21.00''"
  "format_2f (Fin 65) = ''65.00''" "format_2f (Fin (41 / 2)) = ''20.50''"
  "format_2f (Fin (13 / 2)) = ''6.50''"
  by (simp_all add: round_half_even_def digit_def show_nat.simps)

lemma temperatures_10_20_30:
  "mean [Fin 10, Fin 20, Fin 30] = Fin 20"
  "col_max [Fin 10, Fin 20, Fin 30] = Fin 30"
  "col_min [Fin 10, Fin 20, Fin 30] = Fin 10"
  by (simp_all add: mean_def fsum_def col_max_def col_min_def fmax2_def fmin2_def)





text \<open>
  C7, as stated, fails on the record count: for a cleaned file of three rows with the
  Temperatures 10, 20 and 30 the Summarizer prints the line \<open>Total Records: 3.00\<close>,
  since every value of the summary goes through the format \<^verbatim>\<open>.2f\<close>; no printed line
  is \<open>Total Records: 3\<close>.
\<close>

theorem summarize_three_total_line:
  "console (snd (summarize_data ''cleaned_data.csv''
       (write_file ''cleaned_data.csv'' file_three world0))) =
     [Summary_banner, Line ''Total Records: 3.00'', Line ''Avg Temperature: 20.00'',
      Line ''Max Temperature: 30.00'', Line ''Min Temperature: 10.00'',
      Line ''Avg Humidity: 60.00'', Line ''Avg Wind Speed: 20.00''] \<and>
   Line ''Total Records: 3'' \<notin> set (console (snd (summarize_data ''cleaned_data.csv''
       (write_file ''cleaned_data.csv'' file_three world0))))"
proof -
  have ne: "frame_three \<noteq> []" by (simp add: frame_three_def)
  have m: "map Temperature frame_three = [Fin 10, Fin 20, Fin 30]"
    "mean (map Humidity frame_three) = Fin 60" "mean (map Wind_Speed frame_three) = Fin 20"
    "length frame_three = 3"
    by (simp_all add: frame_three_def mean_def fsum_def)
  have three: "show_nat 3 = ''3''" by (simp add: show_nat.simps digit_def)
  have c: "console (write_file ''cleaned_data.csv'' file_three world0) = []"
    by (simp add: write_file_def world0_def)
  show ?thesis
    by (simp add: summarize_console [OF read_file_three ne] m temperatures_10_20_30
        format_examples three c del: format_2f.simps)
qed

text \<open>
  C7, amended. When the cleaned file has exactly three rows with the Temperatures 10,
  20 and 30, the Summarizer prints Total Records: 3.00, Avg Temperature: 20.00,
  Max Temperature: 30.00 and Min Temperature: 10.00, in that order after the banner
  and before the two remaining averages.
\<close>

theorem summarize_10_20_30:
  assumes "read_csv filename w = Inr df"
    and "map Temperature df = [Fin 10, Fin 20, Fin 30]"
  shows "summarize_data filename w =
     (Inr (), w\<lparr>console := console w @
        [Summary_banner,
         Line ''Total Records: 3.00'',
         Line ''Avg Temperature: 20.00'',
         Line ''Max Temperature: 30.00'',
         Line ''Min Temperature: 10.00'',
         Line (''Avg Humidity: '' @ format_2f (mean (map Humidity df))),
         Line (''Avg Wind Speed: '' @ format_2f (mean (map Wind_Speed df)))]\<rparr>)"
proof -
  from assms(2) have len: "length df = 3"
    using length_map [of Temperature df] by simp
  then have ne: "df \<noteq> []" by auto
  have three: "show_nat 3 = ''3''" by (simp add: show_nat.simps digit_def)
  show ?thesis
    by (simp add: summarize_console [OF assms(1) ne] assms(2) len temperatures_10_20_30
        format_examples three del: format_2f.simps)
qed

theorem summarize_10_20_30_witness:
  "read_csv ''cleaned_data.csv'' (write_file ''cleaned_data.csv'' file_three world0) =
     Inr frame_three \<and>
   map Temperature frame_three = [Fin 10, Fin 20, Fin 30] \<and>
   summarize_data ''cleaned_data.csv'' (write_file ''cleaned_data.csv'' file_three world0) =
     (Inr (), (write_file ''cleaned_data.csv'' file_three world0)\<lparr>console :=
        [Summary_banner, Line ''Total Records: 3.00'', Line ''Avg Temperature: 20.00'',
         Line ''Max Temperature: 30.00'', Line ''Min Temperature: 10.00'',
         Line ''Avg Humidity: 60.00'', Line ''Avg Wind Speed: 20.00'']\<rparr>)"
proof -
  have m: "map Temperature frame_three = [Fin 10, Fin 20, Fin 30]"
    by (simp add: frame_three_def)
  have h: "mean (map Humidity frame_three) = Fin 60" "mean (map Wind_Speed frame_three) = Fin 20"
    by (simp_all add: frame_three_def mean_def fsum_def)
  have c: "console (write_file ''cleaned_data.csv'' file_three world0) = []"
    by (simp add: write_file_def world0_def)
  from read_file_three m summarize_10_20_30 [OF read_file_three m]
  show ?thesis by (simp add: h c format_examples del: format_2f.simps)
qed





text \<open>Every non-empty output of the Cleaner meets the condition of the theorem above.\<close>

lemma present_finite_Fin:
  "xs \<noteq> [] \<Longrightarrow> list_all (\<lambda>x. \<exists>a. x = Fin a) xs \<Longrightarrow> present_finite xs"
  by (cases xs) (auto simp: present_finite_def list_all_iff)

lemma clean_frame_present_finite:
  assumes "clean_frame df \<noteq> []"
  shows "present_finite (map Temperature (clean_frame df)) \<and>
         present_finite (map Humidity (clean_frame df)) \<and>
         present_finite (map Wind_Speed (clean_frame df))"
proof -
  have fin: "(\<exists>t. Temperature r = Fin t) \<and> (\<exists>h. Humidity r = Fin h) \<and>
      (\<exists>s. Wind_Speed r = Fin s)" if "r \<in> set (clean_frame df)" for r
    using in_range_bounds [of r] that by (auto simp: clean_frame_filter)
  have "list_all (\<lambda>x. \<exists>a. x = Fin a) (map Temperature (clean_frame df))"
    "list_all (\<lambda>x. \<exists>a. x = Fin a) (map Humidity (clean_frame df))"
    "list_all (\<lambda>x. \<exists>a. x = Fin a) (map Wind_Speed (clean_frame df))"
    using fin by (simp_all add: list_all_iff)
  with assms show ?thesis by (simp add: present_finite_Fin)
qed

section \<open>The whole pipeline on a two-row batch\<close>

text \<open>The first scenario of the specification, run through all four stages: the
  Writer emits two rows, the Cleaner drops the row with Temperature 999, and the
  Summarizer reports the one row left.\<close>

lemma pipeline_scenario_1:
  "main response_ok world0 =
     (Inr (),
      \<lparr>files = [''weather_data.csv'' \<mapsto>
                 [header_row,
                  [PStr ''t0'', PNum (Fin 20), PNum (Fin 50), PNum (Fin 10)],
                  [PStr ''t1'', PNum (Fin 999), PNum (Fin 40), PNum (Fin 20)]],
               ''cleaned_data.csv'' \<mapsto>
                 [header_row,
                  [PStr ''t0'', PNum (Fin 20), PNum (Fin 50), PNum (Fin 10)]]],
       console = [Saved ''weather_data.csv'', Cleaned ''cleaned_data.csv'', Summary_banner,
                  Line ''Total Records: 1.00'', Line ''Avg Temperature: 20.00'',
                  Line ''Max Temperature: 20.00'', Line ''Min Temperature: 20.00'',
                  Line ''Avg Humidity: 50.00'', Line ''Avg Wind Speed: 10.00'']\<rparr>)"
proof -
  have f: "fetch_weather_data response_ok world0 = (Inr (PDict batch_two), world0)"
    by (simp add: fetch_weather_data_def response_ok_def batch_two_def)
  have s: "save_to_csv (PDict batch_two) ''weather_data.csv'' world0 =
      (Inr (), \<lparr>files = [''weather_data.csv'' \<mapsto>
                 [header_row,
                  [PStr ''t0'', PNum (Fin 20), PNum (Fin 50), PNum (Fin 10)],
                  [PStr ''t1'', PNum (Fin 999), PNum (Fin 40), PNum (Fin 20)]]],
                console = [Saved ''weather_data.csv'']\<rparr>)"
    by (simp add: save_to_csv_def batch_two_def data_row_def cell_at_def upt_conv_Cons
        write_file_def py_print_def world0_def)
  have c: "clean_data ''weather_data.csv'' ''cleaned_data.csv''
      \<lparr>files = [''weather_data.csv'' \<mapsto>
                 [header_row,
                  [PStr ''t0'', PNum (Fin 20), PNum (Fin 50), PNum (Fin 10)],
                  [PStr ''t1'', PNum (Fin 999), PNum (Fin 40), PNum (Fin 20)]]],
                console = [Saved ''weather_data.csv'']\<rparr> =
      (Inr (), \<lparr>files = [''weather_data.csv'' \<mapsto>
                 [header_row,
                  [PStr ''t0'', PNum (Fin 20), PNum (Fin 50), PNum (Fin 10)],
                  [PStr ''t1'', PNum (Fin 999), PNum (Fin 40), PNum (Fin 20)]],
               ''cleaned_data.csv'' \<mapsto>
                 [header_row,
                  [PStr ''t0'', PNum (Fin 20), PNum (Fin 50), PNum (Fin 10)]]],
                console = [Saved ''weather_data.csv'', Cleaned ''cleaned_data.csv'']\<rparr>)"
    by (simp add: clean_data_def read_csv_def clean_frame_filter in_range_def
        temperature_ok_def humidity_ok_def wind_speed_ok_def to_csv_def write_file_def
        py_print_def row_fields_def cell_of_float_def)
  have t: "batch_two \<noteq> []" by (simp add: batch_two_def)
  show ?thesis
    by (simp add: main_def f s c t summarize_data_def read_csv_def summary_def metric_line_def py_print_def
        mean_def fsum_def col_max_def col_min_def round_half_even_def digit_def
        show_nat.simps)
qed


end
